theory Spec2Isabelle
  imports Main "HOL-Library.Product_Lexorder"
begin

section \<open>Python values and exceptions\<close>

text \<open>
  The values that cross the tool boundary are JSON-like Python objects: the stages of a
  pipeline and the result documents are dicts. A dict is an association list in insertion
  order. Python floats are left abstract in \<open>'f\<close>, and the values of
  \<^verbatim>\<open>datetime.datetime\<close> in \<open>'dt\<close>: the programs never compute with either.
\<close>

datatype ('f, 'dt) pyvalue =
    PNone
  | PBool bool
  | PInt int
  | PFloat 'f
  | PStr string
  | PDatetime 'dt
  | PList "('f, 'dt) pyvalue list"
  | PDict "(string \<times> ('f, 'dt) pyvalue) list"

text \<open>
  A raised exception: whether its class derives from \<^verbatim>\<open>Exception\<close> (what
  \<^verbatim>\<open>except Exception\<close> catches; \<^verbatim>\<open>KeyboardInterrupt\<close>,
  \<^verbatim>\<open>SystemExit\<close> and \<^verbatim>\<open>asyncio.CancelledError\<close> derive from
  \<^verbatim>\<open>BaseException\<close> only), and what \<^verbatim>\<open>str(e)\<close> gives.
\<close>

datatype exn = Raised (is_Exception: bool) (exc_str: string)

section \<open>The tool server: \<^verbatim>\<open>mcp_server.py\<close>\<close>

subsection \<open>The state the tool runs in\<close>

text \<open>
  Python lists are mutable objects reached through references, so the list objects live
  in a store: \<open>heap w ! r\<close> is the content of the list at reference \<open>r\<close>. The
  dicts inside are never updated by the tool and are kept as values.
  \<open>database\<close> is the state of the MongoDB deployment behind the adapter, and
  \<open>aggregated\<close> records every aggregation handed to the driver: database name,
  collection name and the pipeline as it was at the call.
\<close>

record ('f, 'dt, 'db) world =
  heap :: "('f, 'dt) pyvalue list list"
  database :: 'db
  aggregated :: "(string \<times> string \<times> ('f, 'dt) pyvalue list) list"

text \<open>
  The two library functions the tool calls are parameters of the model.
  \<^item> \<^verbatim>\<open>datetime.fromisoformat\<close> either raises \<^verbatim>\<open>ValueError\<close> (\<open>Inl\<close>
    of the exception's \<^verbatim>\<open>str\<close>) or returns a datetime.
  \<^item> \<^verbatim>\<open>list(collection.aggregate(p))\<close> on collection \<open>c\<close> of database \<open>d\<close>
    either raises or returns the result documents, and may change the database
    (\<^verbatim>\<open>$out\<close>, \<^verbatim>\<open>$merge\<close>). The driver reads the pipeline and does not update
    the list it is given.
\<close>

type_synonym 'dt parser = "string \<Rightarrow> string + 'dt"

type_synonym ('f, 'dt, 'db) driver =
  "string \<Rightarrow> string \<Rightarrow> ('f, 'dt) pyvalue list \<Rightarrow> 'db \<Rightarrow> (exn + ('f, 'dt) pyvalue list) \<times> 'db"

definition list_new :: "('f, 'dt, 'db) world \<Rightarrow> nat \<times> ('f, 'dt, 'db) world" where
  \<comment> \<open>\<^verbatim>\<open>[]\<close>: a fresh list object\<close>
  "list_new w = (length (heap w), w\<lparr>heap := heap w @ [[]]\<rparr>)"

definition list_append ::
  "nat \<Rightarrow> ('f, 'dt) pyvalue \<Rightarrow> ('f, 'dt, 'db) world \<Rightarrow> ('f, 'dt, 'db) world" where
  \<comment> \<open>\<^verbatim>\<open>r.append(v)\<close>\<close>
  "list_append r v w = w\<lparr>heap := (heap w)[r := heap w ! r @ [v]]\<rparr>"

definition list_extend ::
  "nat \<Rightarrow> nat \<Rightarrow> ('f, 'dt, 'db) world \<Rightarrow> ('f, 'dt, 'db) world" where
  \<comment> \<open>\<^verbatim>\<open>r.extend(src)\<close>\<close>
  "list_extend r src w = w\<lparr>heap := (heap w)[r := heap w ! r @ heap w ! src]\<rparr>"

definition aggregate_list ::
  "('f, 'dt, 'db) driver \<Rightarrow> string \<Rightarrow> string \<Rightarrow> nat \<Rightarrow> ('f, 'dt, 'db) world \<Rightarrow>
     (exn + ('f, 'dt) pyvalue list) \<times> ('f, 'dt, 'db) world" where
  \<comment> \<open>\<^verbatim>\<open>list(db.client[d][c].aggregate(r))\<close>\<close>
  "aggregate_list aggregate d c r w =
     (case aggregate d c (heap w ! r) (database w) of
        (res, db') \<Rightarrow>
          (res, w\<lparr>database := db', aggregated := aggregated w @ [(d, c, heap w ! r)]\<rparr>))"

subsection \<open>\<^verbatim>\<open>query_db_aggregate\<close>\<close>

definition truthy :: "string option \<Rightarrow> bool" where
  \<comment> \<open>the truth value of an \<^verbatim>\<open>Optional[str]\<close>: \<^verbatim>\<open>None\<close> and \<^verbatim>\<open>""\<close> are false\<close>
  "truthy x = (case x of None \<Rightarrow> False | Some s \<Rightarrow> s \<noteq> [])"

definition invalid_date_format :: "string \<Rightarrow> string" where
  "invalid_date_format e =
     ''Invalid date format. Use ISO format (e.g., '' @ [CHR 0x27] @ ''2025-04-19T00:00:00''
       @ [CHR 0x27] @ ''). Error: '' @ e"

definition query_db_aggregate ::
  "'dt parser \<Rightarrow> ('f, 'dt, 'db) driver \<Rightarrow> nat \<Rightarrow> string option \<Rightarrow> string option \<Rightarrow>
     ('f, 'dt, 'db) world \<Rightarrow> (exn + ('f, 'dt) pyvalue) \<times> ('f, 'dt, 'db) world" where
  "query_db_aggregate fromisoformat aggregate pipeline start end' w =
     (case list_new w of
        (final_pipeline, w1) \<Rightarrow>
          (case (if truthy start \<and> truthy end' then
                   \<comment> \<open>under the guard neither argument is \<^verbatim>\<open>None\<close>\<close>
                   (case start of
                      None \<Rightarrow> Inr w1
                    | Some s \<Rightarrow>
                        (case fromisoformat s of
                           Inl e \<Rightarrow> Inl (invalid_date_format e)
                         | Inr start_dt \<Rightarrow>
                             (case end' of
                                None \<Rightarrow> Inr w1
                              | Some e' \<Rightarrow>
                                  (case fromisoformat e' of
                                     Inl e \<Rightarrow> Inl (invalid_date_format e)
                                   | Inr end_dt \<Rightarrow>
                                       Inr (list_append final_pipeline
                                              (PDict [(''$match'',
                                                 PDict [(''date'',
                                                   PDict [(''$gte'', PDatetime start_dt),
                                                          (''$lt'', PDatetime end_dt)])])])
                                              w1)))))
                 else Inr w1) of
             Inl msg \<Rightarrow> (Inr (PStr msg), w1)
           | Inr w2 \<Rightarrow>
               (case aggregate_list aggregate ''fundaura'' ''transactions'' final_pipeline
                       (list_extend final_pipeline pipeline w2) of
                  (Inl x, w3) \<Rightarrow> (Inl x, w3)
                | (Inr result, w3) \<Rightarrow>
                    (Inr (if result \<noteq> [] then PList result
                          else PStr ''No results found for the aggregation.''), w3))))"

subsection \<open>\<^verbatim>\<open>app_lifespan\<close>\<close>







section \<open>The structured-chat client: \<^verbatim>\<open>mcp_client.py\<close>\<close>

text \<open>
  \<open>startup\<close> stands for everything the script does before the \<^verbatim>\<open>try\<close> statement
  (creating the model client, launching the server, the session handshake, loading the
  tools, building the agent) and gives the exception raised there, if any.
  \<open>ainvoke\<close> is \<^verbatim>\<open>AgentExecutor.ainvoke\<close> of the framework, called with the
  executor's settings and the input dict. Leaving the two \<^verbatim>\<open>async with\<close> blocks is
  taken to raise nothing. \<open>printed\<close> holds what the script itself writes: the arguments
  of each \<^verbatim>\<open>print\<close>, and the traceback of \<^verbatim>\<open>traceback.print_exc()\<close>.
\<close>

record executor_settings =
  verbose :: bool
  handle_parsing_errors :: bool
  max_iterations :: nat

definition agent_executor :: executor_settings where
  "agent_executor = \<lparr>verbose = True, handle_parsing_errors = True, max_iterations = 5\<rparr>"

datatype ('f, 'dt) written = Stdout "('f, 'dt) pyvalue list" | Print_exc exn

record ('f, 'dt, 's) client =
  env :: 's
  printed :: "('f, 'dt) written list"

definition query :: string where
  "query = ''give count of documents in transactions collection in mongo db on date 2025-04-19''"

definition query_line :: string where
  \<comment> \<open>a newline, the memo sign U+1F4DD in UTF-8, \<^verbatim>\<open> QUERY: \<close>, the query, a newline\<close>
  "query_line =
     [CHR 0x0A, CHR 0xF0, CHR 0x9F, CHR 0x93, CHR 0x9D] @ '' QUERY: '' @ query @ [CHR 0x0A]"

definition main ::
  "('s \<Rightarrow> exn option \<times> 's) \<Rightarrow>
     (executor_settings \<Rightarrow> ('f, 'dt) pyvalue \<Rightarrow> 's \<Rightarrow> (exn + ('f, 'dt) pyvalue) \<times> 's) \<Rightarrow>
     ('f, 'dt, 's) client \<Rightarrow> (exn + ('f, 'dt) pyvalue) \<times> ('f, 'dt, 's) client" where
  "main startup ainvoke c =
     (case startup (env c) of
        (Some e, s1) \<Rightarrow> (Inl e, c\<lparr>env := s1\<rparr>)
      | (None, s1) \<Rightarrow>
          (let c1 = c\<lparr>env := s1,
                      printed := printed c @ [Stdout [PStr query_line]]\<rparr> in
           case ainvoke agent_executor (PDict [(''input'', PStr query)]) (env c1) of
             (Inr agent_response, s2) \<Rightarrow>
               (Inr agent_response,
                c1\<lparr>env := s2,
                   printed := printed c1 @ [Stdout [PStr ''FINAL RESPONSE:'', agent_response]]\<rparr>)
           | (Inl e, s2) \<Rightarrow>
               if is_Exception e then
                 (Inr (PDict [(''error'', PStr (exc_str e))]),
                  c1\<lparr>env := s2,
                     printed := printed c1 @
                       [Stdout [PStr (''Error executing agent: '' @ exc_str e)], Print_exc e]\<rparr>)
               else (Inl e, c1\<lparr>env := s2\<rparr>)))"

definition client_script ::
  "('s \<Rightarrow> exn option \<times> 's) \<Rightarrow>
     (executor_settings \<Rightarrow> ('f, 'dt) pyvalue \<Rightarrow> 's \<Rightarrow> (exn + ('f, 'dt) pyvalue) \<times> 's) \<Rightarrow>
     ('f, 'dt, 's) client \<Rightarrow> exn option \<times> ('f, 'dt, 's) client" where
  \<comment> \<open>\<^verbatim>\<open>agent_response = asyncio.run(main()); print("Final result:", agent_response)\<close>\<close>
  "client_script startup ainvoke c =
     (case main startup ainvoke c of
        (Inl e, c1) \<Rightarrow> (Some e, c1)
      | (Inr agent_response, c1) \<Rightarrow>
          (None, c1\<lparr>printed := printed c1 @ [Stdout [PStr ''Final result:'', agent_response]]\<rparr>))"

section \<open>Instances for running the model\<close>

text \<open>
  To run the tool on concrete calls the two parameters need values.

  \<open>basic_fromisoformat\<close> is a small parser with the interface of
  \<^verbatim>\<open>datetime.fromisoformat\<close>. It reads the two shapes \<^verbatim>\<open>YYYY-MM-DD\<close> and
  \<^verbatim>\<open>YYYY-MM-DD?HH:MM:SS\<close> (any one character between date and time) and answers on
  them as CPython 3.11 does: the datetime, or the message of the first field out of range
  (\<^verbatim>\<open>year 0 is out of range\<close>, \<^verbatim>\<open>month must be in 1..12\<close>,
  \<^verbatim>\<open>day is out of range for month\<close>, and so on). Every other string it rejects with
  \<^verbatim>\<open>Invalid isoformat string: '...'\<close>, which is the library's answer for a string that
  is no date at all, but not for the further shapes the library reads (week dates, dates
  without hyphens, shorter times, fractions of a second, offsets). It is applied below only
  to strings of the two shapes and to strings that are no date. A datetime is the tuple of
  its six fields, ordered lexicographically.

  \<open>memory_driver\<close> keeps the \<^verbatim>\<open>transactions\<close> collection as a list of documents and
  runs two kinds of stage, a \<^verbatim>\<open>$match\<close> on a \<^verbatim>\<open>date\<close> range and \<^verbatim>\<open>$limit\<close>;
  any other stage fails.
\<close>

type_synonym datetime = "nat \<times> nat \<times> nat \<times> nat \<times> nat \<times> nat"

definition digit_val :: "char \<Rightarrow> nat option" where
  "digit_val c = (if c \<in> set ''0123456789'' then Some (of_char c - 48) else None)"

fun number :: "nat \<Rightarrow> string \<Rightarrow> nat option" where
  "number acc [] = Some acc"
| "number acc (c # cs) =
     (case digit_val c of None \<Rightarrow> None | Some d \<Rightarrow> number (10 * acc + d) cs)"

definition days_in_month :: "nat \<Rightarrow> nat \<Rightarrow> nat" where
  "days_in_month y m =
     (if m = 2 then (if y mod 4 = 0 \<and> (y mod 100 \<noteq> 0 \<or> y mod 400 = 0) then 29 else 28)
      else if m \<in> {4, 6, 9, 11} then 30 else 31)"

definition invalid_isoformat :: "string \<Rightarrow> string" where
  "invalid_isoformat s = ''Invalid isoformat string: '' @ [CHR 0x27] @ s @ [CHR 0x27]"

definition basic_fromisoformat :: "datetime parser" where
  "basic_fromisoformat s =
     (case (if length s = 10 \<and> map ((!) s) [4, 7] = ''--''
            then those [number 0 (take 4 s), number 0 (take 2 (drop 5 s)),
                        number 0 (take 2 (drop 8 s)), Some 0, Some 0, Some 0]
            else if length s = 19 \<and> map ((!) s) [4, 7, 13, 16] = ''--::''
            then those [number 0 (take 4 s), number 0 (take 2 (drop 5 s)),
                        number 0 (take 2 (drop 8 s)), number 0 (take 2 (drop 11 s)),
                        number 0 (take 2 (drop 14 s)), number 0 (take 2 (drop 17 s))]
            else None) of
        Some [y, m, d, hh, mm, ss] \<Rightarrow>
          if y < 1 then Inl ''year 0 is out of range''
          else if m < 1 \<or> 12 < m then Inl ''month must be in 1..12''
          else if d < 1 \<or> days_in_month y m < d then Inl ''day is out of range for month''
          else if 23 < hh then Inl ''hour must be in 0..23''
          else if 59 < mm then Inl ''minute must be in 0..59''
          else if 59 < ss then Inl ''second must be in 0..59''
          else Inr (y, m, d, hh, mm, ss)
      | _ \<Rightarrow> Inl (invalid_isoformat s))"

definition dated_within :: "datetime \<Rightarrow> datetime \<Rightarrow> (unit, datetime) pyvalue \<Rightarrow> bool" where
  "dated_within a b doc =
     (case doc of
        PDict items \<Rightarrow>
          (case map_of items ''date'' of Some (PDatetime t) \<Rightarrow> a \<le> t \<and> t < b | _ \<Rightarrow> False)
      | _ \<Rightarrow> False)"

definition run_stage ::
  "(unit, datetime) pyvalue \<Rightarrow> (unit, datetime) pyvalue list \<Rightarrow>
     exn + (unit, datetime) pyvalue list" where
  "run_stage st docs =
     (case st of
        PDict [(k, PDict [(f, PDict [(lo, PDatetime a), (hi, PDatetime b)])])] \<Rightarrow>
          if k = ''$match'' \<and> f = ''date'' \<and> lo = ''$gte'' \<and> hi = ''$lt''
          then Inr (filter (dated_within a b) docs)
          else Inl (Raised True ''unsupported stage'')
      | PDict [(k, PInt n)] \<Rightarrow>
          if k = ''$limit'' \<and> 0 < n then Inr (take (nat n) docs)
          else Inl (Raised True ''unsupported stage'')
      | _ \<Rightarrow> Inl (Raised True ''unsupported stage''))"

fun run_pipeline ::
  "(unit, datetime) pyvalue list \<Rightarrow> (unit, datetime) pyvalue list \<Rightarrow>
     exn + (unit, datetime) pyvalue list" where
  "run_pipeline [] docs = Inr docs"
| "run_pipeline (st # sts) docs =
     (case run_stage st docs of Inl e \<Rightarrow> Inl e | Inr docs' \<Rightarrow> run_pipeline sts docs')"

definition memory_driver :: "(unit, datetime, (unit, datetime) pyvalue list) driver" where
  "memory_driver d c p docs =
     (if d = ''fundaura'' \<and> c = ''transactions'' then (run_pipeline p docs, docs)
      else (Inr [], docs))"

definition txn :: "int \<Rightarrow> datetime \<Rightarrow> (unit, datetime) pyvalue" where
  "txn i t = PDict [(''transaction_id'', PInt i), (''date'', PDatetime t)]"

definition sample_world :: "(unit, datetime, (unit, datetime) pyvalue list) world" where
  "sample_world =
     \<lparr>heap = [[PDict [(''$limit'', PInt 5)]]],
      database = [txn 1 (2025, 4, 18, 23, 59, 59), txn 2 (2025, 4, 19, 0, 0, 0),
                  txn 3 (2025, 4, 19, 17, 30, 0), txn 4 (2025, 4, 20, 0, 0, 0)],
      aggregated = []\<rparr>"

text \<open>
  For the client: a startup that succeeds, and an agent invocation that raises a given
  exception.
\<close>

definition quiet_startup :: "unit \<Rightarrow> exn option \<times> unit" where
  "quiet_startup s = (None, s)"

definition failing_ainvoke ::
  "exn \<Rightarrow> executor_settings \<Rightarrow> (unit, unit) pyvalue \<Rightarrow> unit \<Rightarrow>
     (exn + (unit, unit) pyvalue) \<times> unit" where
  "failing_ainvoke e settings input s = (Inl e, s)"

definition fresh_client :: "(unit, unit, unit) client" where
  "fresh_client = \<lparr>env = (), printed = []\<rparr>"

section \<open>Properties of \<^verbatim>\<open>query_db_aggregate\<close>\<close>

subsection \<open>The three ways through the function\<close>

lemmas tool_defs = query_db_aggregate_def list_new_def list_append_def list_extend_def
  aggregate_list_def

lemma qda_skipped:
  assumes "\<not> (truthy start \<and> truthy end')" and "pipeline < length (heap w)"
  shows "query_db_aggregate fromisoformat aggregate pipeline start end' w =
     (case aggregate ''fundaura'' ''transactions'' (heap w ! pipeline) (database w) of
        (res, db') \<Rightarrow>
          (case res of
             Inl x \<Rightarrow> Inl x
           | Inr result \<Rightarrow>
               Inr (if result \<noteq> [] then PList result
                    else PStr ''No results found for the aggregation.''),
           w\<lparr>heap := heap w @ [heap w ! pipeline], database := db',
             aggregated := aggregated w @ [(''fundaura'', ''transactions'', heap w ! pipeline)]\<rparr>))"
  using assms
  by (auto simp add: tool_defs nth_append split: prod.splits sum.splits)

lemma qda_rejected:
  assumes "start = Some s" "end' = Some e" "s \<noteq> []" "e \<noteq> []"
    and "fromisoformat s = Inl m \<or> (\<not> isl (fromisoformat s) \<and> fromisoformat e = Inl m)"
  shows "query_db_aggregate fromisoformat aggregate pipeline start end' w =
     (Inr (PStr (invalid_date_format m)), w\<lparr>heap := heap w @ [[]]\<rparr>)"
  using assms
  by (auto simp add: tool_defs truthy_def split: prod.splits sum.splits)

lemma qda_matched:
  assumes "start = Some s" "end' = Some e" "s \<noteq> []" "e \<noteq> []"
    and "fromisoformat s = Inr start_dt" "fromisoformat e = Inr end_dt"
    and "pipeline < length (heap w)"
  shows "query_db_aggregate fromisoformat aggregate pipeline start end' w =
     (let final = PDict [(''$match'', PDict [(''date'',
                    PDict [(''$gte'', PDatetime start_dt), (''$lt'', PDatetime end_dt)])])]
                  # heap w ! pipeline in
      case aggregate ''fundaura'' ''transactions'' final (database w) of
        (res, db') \<Rightarrow>
          (case res of
             Inl x \<Rightarrow> Inl x
           | Inr result \<Rightarrow>
               Inr (if result \<noteq> [] then PList result
                    else PStr ''No results found for the aggregation.''),
           w\<lparr>heap := heap w @ [final], database := db',
             aggregated := aggregated w @ [(''fundaura'', ''transactions'', final)]\<rparr>))"
  using assms
  by (auto simp add: tool_defs truthy_def nth_append Let_def split: prod.splits sum.splits)

lemmas instance_defs = basic_fromisoformat_def digit_val_def days_in_month_def
  invalid_isoformat_def memory_driver_def run_stage_def dated_within_def txn_def
  sample_world_def

subsection \<open>The executed pipeline\<close>

text \<open>
  C1. When both \<^verbatim>\<open>start\<close> and \<^verbatim>\<open>end\<close> are supplied and parse, the call is
  one call of the driver, on collection \<^verbatim>\<open>transactions\<close> of database
  \<^verbatim>\<open>fundaura\<close>, with the pipeline made of the stage
  \<^verbatim>\<open>{"$match": {"date": {"$gte": start, "$lt": end}}}\<close> followed by the caller's stages
  in their order: the tool returns what the driver gives for that pipeline, the database
  is left as the driver leaves it, and that pipeline is the one aggregation recorded. The
  parser is any function that rejects the empty string, as \<^verbatim>\<open>datetime.fromisoformat\<close>
  does; the order of the two dates plays no part, so the statement covers \<open>start < end\<close>
  in particular.
\<close>

theorem date_match_prepended:
  assumes "isl (fromisoformat [])"
    and "pipeline < length (heap w)"
    and "start = Some s" and "end' = Some e"
    and "fromisoformat s = Inr start_dt" and "fromisoformat e = Inr end_dt"
  shows "query_db_aggregate fromisoformat aggregate pipeline start end' w =
     (let final = PDict [(''$match'', PDict [(''date'',
                    PDict [(''$gte'', PDatetime start_dt), (''$lt'', PDatetime end_dt)])])]
                  # heap w ! pipeline in
      case aggregate ''fundaura'' ''transactions'' final (database w) of
        (res, db') \<Rightarrow>
          (case res of
             Inl x \<Rightarrow> Inl x
           | Inr result \<Rightarrow>
               Inr (if result \<noteq> [] then PList result
                    else PStr ''No results found for the aggregation.''),
           w\<lparr>heap := heap w @ [final], database := db',
             aggregated := aggregated w @ [(''fundaura'', ''transactions'', final)]\<rparr>))"
proof -
  from assms have ne: "s \<noteq> []" "e \<noteq> []" by auto
  show ?thesis
    by (rule qda_matched [OF assms(3,4) ne assms(5,6,2)])
qed

theorem date_match_prepended_witness:
  "isl (basic_fromisoformat []) \<and> 0 < length (heap sample_world) \<and>
   basic_fromisoformat ''2025-04-19T00:00:00'' = Inr (2025, 4, 19, 0, 0, 0) \<and>
   basic_fromisoformat ''2025-04-20T00:00:00'' = Inr (2025, 4, 20, 0, 0, 0) \<and>
   query_db_aggregate basic_fromisoformat memory_driver 0
      (Some ''2025-04-19T00:00:00'') (Some ''2025-04-20T00:00:00'') sample_world =
     (Inr (PList [txn 2 (2025, 4, 19, 0, 0, 0), txn 3 (2025, 4, 19, 17, 30, 0)]),
      sample_world
        \<lparr>heap :=
           [[PDict [(''$limit'', PInt 5)]],
            [PDict [(''$match'', PDict [(''date'',
               PDict [(''$gte'', PDatetime (2025, 4, 19, 0, 0, 0)),
                      (''$lt'', PDatetime (2025, 4, 20, 0, 0, 0))])])],
             PDict [(''$limit'', PInt 5)]]],
         aggregated :=
           [(''fundaura'', ''transactions'',
             [PDict [(''$match'', PDict [(''date'',
                PDict [(''$gte'', PDatetime (2025, 4, 19, 0, 0, 0)),
                       (''$lt'', PDatetime (2025, 4, 20, 0, 0, 0))])])],
              PDict [(''$limit'', PInt 5)]])]\<rparr>)"
proof -
  have h1: "isl (basic_fromisoformat [])"
    by (simp add: instance_defs)
  have h2: "0 < length (heap sample_world)"
    by (simp add: sample_world_def)
  have h3: "basic_fromisoformat ''2025-04-19T00:00:00'' = Inr (2025, 4, 19, 0, 0, 0)"
    by (simp add: instance_defs)
  have h4: "basic_fromisoformat ''2025-04-20T00:00:00'' = Inr (2025, 4, 20, 0, 0, 0)"
    by (simp add: instance_defs)
  from date_match_prepended [OF h1 h2 refl refl h3 h4, of memory_driver] h1 h2 h3 h4
  show ?thesis
    by (simp add: Let_def memory_driver_def run_stage_def dated_within_def txn_def
        sample_world_def)
qed

text \<open>
  C2, as the code has it. The claim reads: when \<^verbatim>\<open>start\<close> or \<^verbatim>\<open>end\<close> is missing
  or does not parse, the caller's pipeline is executed unmodified. That fails where both
  are given and one does not parse: the tool answers with the date-format message and
  executes nothing, as the call below shows.
\<close>

theorem unparseable_dates_not_executed:
  "fst (query_db_aggregate basic_fromisoformat memory_driver 0
          (Some ''19 April'') (Some ''2025-04-20T00:00:00'') sample_world) =
     Inr (PStr (invalid_date_format (invalid_isoformat ''19 April''))) \<and>
   aggregated (snd (query_db_aggregate basic_fromisoformat memory_driver 0
          (Some ''19 April'') (Some ''2025-04-20T00:00:00'') sample_world)) = []"
  by (simp add: tool_defs truthy_def instance_defs)

text \<open>
  C2, amended. When \<^verbatim>\<open>start\<close> or \<^verbatim>\<open>end\<close> is missing or empty, the call is one
  call of the driver with the caller's pipeline as it stands, and the tool returns what
  the driver gives for it. When both are supplied and not empty and
  \<^verbatim>\<open>datetime.fromisoformat\<close> rejects one of them, nothing is executed: the tool
  returns the date-format message, and the driver is not called. In neither case is a date
  filter added.
\<close>

theorem no_date_filter_added:
  assumes "pipeline < length (heap w)"
  shows "(start = None \<or> end' = None \<or> start = Some [] \<or> end' = Some [] \<longrightarrow>
          query_db_aggregate fromisoformat aggregate pipeline start end' w =
            (case aggregate ''fundaura'' ''transactions'' (heap w ! pipeline) (database w) of
               (res, db') \<Rightarrow>
                 (case res of
                    Inl x \<Rightarrow> Inl x
                  | Inr result \<Rightarrow>
                      Inr (if result \<noteq> [] then PList result
                           else PStr ''No results found for the aggregation.''),
                  w\<lparr>heap := heap w @ [heap w ! pipeline], database := db',
                    aggregated := aggregated w @
                      [(''fundaura'', ''transactions'', heap w ! pipeline)]\<rparr>)))
       \<and> (\<forall>s e. start = Some s \<and> end' = Some e \<and> s \<noteq> [] \<and> e \<noteq> []
                 \<and> (isl (fromisoformat s) \<or> isl (fromisoformat e)) \<longrightarrow>
          query_db_aggregate fromisoformat aggregate pipeline start end' w =
            (Inr (PStr (invalid_date_format
                          (if isl (fromisoformat s) then projl (fromisoformat s)
                           else projl (fromisoformat e)))),
             w\<lparr>heap := heap w @ [[]]\<rparr>))"
proof (intro conjI impI allI)
  assume "start = None \<or> end' = None \<or> start = Some [] \<or> end' = Some []"
  then have skip: "\<not> (truthy start \<and> truthy end')"
    by (auto simp add: truthy_def)
  show "query_db_aggregate fromisoformat aggregate pipeline start end' w =
            (case aggregate ''fundaura'' ''transactions'' (heap w ! pipeline) (database w) of
               (res, db') \<Rightarrow>
                 (case res of
                    Inl x \<Rightarrow> Inl x
                  | Inr result \<Rightarrow>
                      Inr (if result \<noteq> [] then PList result
                           else PStr ''No results found for the aggregation.''),
                  w\<lparr>heap := heap w @ [heap w ! pipeline], database := db',
                    aggregated := aggregated w @
                      [(''fundaura'', ''transactions'', heap w ! pipeline)]\<rparr>))"
    by (rule qda_skipped [OF skip assms])
next
  fix s e
  let ?m = "if isl (fromisoformat s) then projl (fromisoformat s) else projl (fromisoformat e)"
  assume a: "start = Some s \<and> end' = Some e \<and> s \<noteq> [] \<and> e \<noteq> []
                 \<and> (isl (fromisoformat s) \<or> isl (fromisoformat e))"
  then have se: "start = Some s" "end' = Some e" "s \<noteq> []" "e \<noteq> []"
    by simp_all
  from a have m:
    "fromisoformat s = Inl ?m \<or> (\<not> isl (fromisoformat s) \<and> fromisoformat e = Inl ?m)"
    by (cases "fromisoformat s"; cases "fromisoformat e") auto
  show "query_db_aggregate fromisoformat aggregate pipeline start end' w =
          (Inr (PStr (invalid_date_format ?m)), w\<lparr>heap := heap w @ [[]]\<rparr>)"
    by (rule qda_rejected [OF se m])
qed

theorem no_date_filter_added_witness:
  "query_db_aggregate basic_fromisoformat memory_driver 0
      None (Some ''2025-04-20T00:00:00'') sample_world =
     (Inr (PList (database sample_world)),
      sample_world\<lparr>heap := [[PDict [(''$limit'', PInt 5)]], [PDict [(''$limit'', PInt 5)]]],
        aggregated := [(''fundaura'', ''transactions'', [PDict [(''$limit'', PInt 5)]])]\<rparr>) \<and>
   query_db_aggregate basic_fromisoformat memory_driver 0
      (Some ''2025-04-19T00:00:00'') (Some ''20 April'') sample_world =
     (Inr (PStr (invalid_date_format (invalid_isoformat ''20 April''))),
      sample_world\<lparr>heap := [[PDict [(''$limit'', PInt 5)]], []]\<rparr>)"
proof -
  have h: "0 < length (heap sample_world)"
    by (simp add: sample_world_def)
  have p1: "basic_fromisoformat ''2025-04-19T00:00:00'' = Inr (2025, 4, 19, 0, 0, 0)"
    by (simp add: instance_defs)
  have p2: "basic_fromisoformat ''20 April'' = Inl (invalid_isoformat ''20 April'')"
    by (simp add: basic_fromisoformat_def)
  note missing = no_date_filter_added [OF h, of None "Some ''2025-04-20T00:00:00''"
      basic_fromisoformat memory_driver, THEN conjunct1]
  note rejected = no_date_filter_added [OF h, of "Some ''2025-04-19T00:00:00''"
      "Some ''20 April''" basic_fromisoformat memory_driver, THEN conjunct2,
      THEN spec, THEN spec, of "''2025-04-19T00:00:00''" "''20 April''"]
  from missing have first: "query_db_aggregate basic_fromisoformat memory_driver 0
      None (Some ''2025-04-20T00:00:00'') sample_world =
     (Inr (PList (database sample_world)),
      sample_world\<lparr>heap := [[PDict [(''$limit'', PInt 5)]], [PDict [(''$limit'', PInt 5)]]],
        aggregated := [(''fundaura'', ''transactions'', [PDict [(''$limit'', PInt 5)]])]\<rparr>)"
    by (simp add: memory_driver_def run_stage_def txn_def sample_world_def)
  from rejected have second: "query_db_aggregate basic_fromisoformat memory_driver 0
      (Some ''2025-04-19T00:00:00'') (Some ''20 April'') sample_world =
     (Inr (PStr (invalid_date_format (invalid_isoformat ''20 April''))),
      sample_world\<lparr>heap := [[PDict [(''$limit'', PInt 5)]], []]\<rparr>)"
    by (simp add: p1 p2 sample_world_def)
  from first second show ?thesis ..
qed

text \<open>
  C8. When \<^verbatim>\<open>start\<close> or \<^verbatim>\<open>end\<close> is missing or is the empty string, the date
  branch is skipped: the parser is not consulted, the one aggregation of the call is the
  caller's pipeline as it stands, and the tool returns what that aggregation gives, never
  the date-format message.
\<close>

theorem partial_range_ignored:
  assumes "pipeline < length (heap w)"
    and "start = None \<or> end' = None \<or> start = Some [] \<or> end' = Some []"
  shows "query_db_aggregate fromisoformat aggregate pipeline start end' w =
     (case aggregate ''fundaura'' ''transactions'' (heap w ! pipeline) (database w) of
        (res, db') \<Rightarrow>
          (case res of
             Inl x \<Rightarrow> Inl x
           | Inr result \<Rightarrow>
               Inr (if result \<noteq> [] then PList result
                    else PStr ''No results found for the aggregation.''),
           w\<lparr>heap := heap w @ [heap w ! pipeline], database := db',
             aggregated := aggregated w @ [(''fundaura'', ''transactions'', heap w ! pipeline)]\<rparr>))"
proof -
  from assms(2) have skip: "\<not> (truthy start \<and> truthy end')"
    by (auto simp add: truthy_def)
  show ?thesis
    by (rule qda_skipped [OF skip assms(1)])
qed

theorem partial_range_ignored_witness:
  "query_db_aggregate basic_fromisoformat memory_driver 0
      (Some ''2025-04-19T00:00:00'') None sample_world =
     (Inr (PList (database sample_world)),
      sample_world\<lparr>heap := [[PDict [(''$limit'', PInt 5)]], [PDict [(''$limit'', PInt 5)]]],
        aggregated := [(''fundaura'', ''transactions'', [PDict [(''$limit'', PInt 5)]])]\<rparr>)"
proof -
  have h: "0 < length (heap sample_world)"
    by (simp add: sample_world_def)
  have a: "Some ''2025-04-19T00:00:00'' = None \<or> None = None
           \<or> Some ''2025-04-19T00:00:00'' = Some [] \<or> None = Some []"
    by simp
  from partial_range_ignored [OF h a, of basic_fromisoformat memory_driver]
  show ?thesis by (simp add: instance_defs)
qed

subsection \<open>Dates that do not parse\<close>

text \<open>
  C3, as the code has it. The claim reads: when both \<^verbatim>\<open>start\<close> and \<^verbatim>\<open>end\<close> are
  supplied and one is not a valid ISO-8601 string, the tool returns the date-format
  message. The empty string is supplied and is not valid ISO-8601, yet it switches the date
  branch off: the call below runs the caller's pipeline and returns its documents.
\<close>

theorem empty_date_not_reported:
  "isl (basic_fromisoformat []) \<and> isl (basic_fromisoformat ''tomorrow'') \<and>
   query_db_aggregate basic_fromisoformat memory_driver 0 (Some []) (Some ''tomorrow'')
       sample_world =
     (Inr (PList (database sample_world)),
      sample_world\<lparr>heap := [[PDict [(''$limit'', PInt 5)]], [PDict [(''$limit'', PInt 5)]]],
        aggregated := [(''fundaura'', ''transactions'', [PDict [(''$limit'', PInt 5)]])]\<rparr>)"
  by (simp add: tool_defs truthy_def instance_defs)

text \<open>
  C3, amended. When both \<^verbatim>\<open>start\<close> and \<^verbatim>\<open>end\<close> are supplied and not empty, and
  \<^verbatim>\<open>datetime.fromisoformat\<close> rejects one of them, the tool raises nothing and returns
  the string
  \<^verbatim>\<open>Invalid date format. Use ISO format (e.g., '2025-04-19T00:00:00'). Error: \<close>
  followed by the message of the parser's exception: that for \<^verbatim>\<open>start\<close> if
  \<^verbatim>\<open>start\<close> is rejected, else that for \<^verbatim>\<open>end\<close>. What the parser rejects is the
  parser's matter: it reads some strings that are not ISO-8601, and for those no message is
  returned.
\<close>

theorem malformed_date_error_string:
  assumes "start = Some s" and "end' = Some e" and "s \<noteq> []" and "e \<noteq> []"
    and "isl (fromisoformat s) \<or> isl (fromisoformat e)"
  shows "query_db_aggregate fromisoformat aggregate pipeline start end' w =
     (Inr (PStr (''Invalid date format. Use ISO format (e.g., '2025-04-19T00:00:00'). Error: ''
                @ (if isl (fromisoformat s) then projl (fromisoformat s)
                   else projl (fromisoformat e)))),
      w\<lparr>heap := heap w @ [[]]\<rparr>)"
proof -
  let ?m = "if isl (fromisoformat s) then projl (fromisoformat s) else projl (fromisoformat e)"
  from assms(5) have m:
    "fromisoformat s = Inl ?m \<or> (\<not> isl (fromisoformat s) \<and> fromisoformat e = Inl ?m)"
    by (cases "fromisoformat s"; cases "fromisoformat e") auto
  show ?thesis
    by (simp add: qda_rejected [OF assms(1-4) m] invalid_date_format_def)
qed

theorem malformed_date_error_string_witness:
  "fst (query_db_aggregate basic_fromisoformat memory_driver 0
          (Some ''2025-04-19T00:00:00'') (Some ''tomorrow'') sample_world) =
     Inr (PStr (''Invalid date format. Use ISO format (e.g., '2025-04-19T00:00:00'). Error: ''
                @ ''Invalid isoformat string: 'tomorrow'' @ [CHR 0x27]))"
proof -
  have p1: "basic_fromisoformat ''2025-04-19T00:00:00'' = Inr (2025, 4, 19, 0, 0, 0)"
    by (simp add: instance_defs)
  have p2: "basic_fromisoformat ''tomorrow'' =
      Inl (''Invalid isoformat string: 'tomorrow'' @ [CHR 0x27])"
    by (simp add: instance_defs)
  have h: "isl (basic_fromisoformat ''2025-04-19T00:00:00'')
           \<or> isl (basic_fromisoformat ''tomorrow'')"
    by (simp add: p2)
  have ne: "''2025-04-19T00:00:00'' \<noteq> []" "''tomorrow'' \<noteq> []"
    by simp_all
  from malformed_date_error_string [OF refl refl ne h, of memory_driver 0 sample_world]
  show ?thesis by (simp add: p1 p2)
qed

text \<open>
  C9. When date parsing fails, the tool returns a string and has not touched the database:
  no aggregation was handed to the driver and the database is in the state it was in.
\<close>

theorem date_error_before_database:
  assumes "start = Some s" and "end' = Some e" and "s \<noteq> []" and "e \<noteq> []"
    and "isl (fromisoformat s) \<or> isl (fromisoformat e)"
  shows "(\<exists>msg. fst (query_db_aggregate fromisoformat aggregate pipeline start end' w)
                  = Inr (PStr msg))
       \<and> database (snd (query_db_aggregate fromisoformat aggregate pipeline start end' w))
           = database w
       \<and> aggregated (snd (query_db_aggregate fromisoformat aggregate pipeline start end' w))
           = aggregated w"
proof -
  from assms(5) obtain m where m:
    "fromisoformat s = Inl m \<or> (\<not> isl (fromisoformat s) \<and> fromisoformat e = Inl m)"
    by (cases "fromisoformat s"; cases "fromisoformat e") auto
  show ?thesis
    by (simp add: qda_rejected [OF assms(1-4) m])
qed

theorem date_error_before_database_witness:
  "database (snd (query_db_aggregate basic_fromisoformat memory_driver 0
      (Some ''yesterday'') (Some ''today'') sample_world)) = database sample_world \<and>
   aggregated (snd (query_db_aggregate basic_fromisoformat memory_driver 0
      (Some ''yesterday'') (Some ''today'') sample_world)) = []"
proof -
  have h: "isl (basic_fromisoformat ''yesterday'') \<or> isl (basic_fromisoformat ''today'')"
    by (simp add: instance_defs)
  have ne: "''yesterday'' \<noteq> []" "''today'' \<noteq> []"
    by simp_all
  from date_error_before_database [OF refl refl ne h, of memory_driver 0 sample_world]
  show ?thesis by (simp add: sample_world_def)
qed

subsection \<open>The result of an aggregation\<close>

text \<open>
  C4. Whenever a call hands a pipeline to the driver and the driver returns the result
  documents, the tool returns the sentence \<^verbatim>\<open>No results found for the aggregation.\<close>
  if there are none, and the list of documents otherwise; in neither case an exception, and
  never the empty list.
\<close>

theorem no_results_sentinel:
  assumes "query_db_aggregate fromisoformat aggregate pipeline start end' w = (r, w')"
    and "aggregated w' = aggregated w @ [(d, c, final)]"
    and "aggregate d c final (database w) = (Inr result, db')"
  shows "r = Inr (if result = [] then PStr ''No results found for the aggregation.''
                  else PList result)"
  using assms
  by (auto simp add: tool_defs split: prod.splits sum.splits if_splits option.splits)

theorem no_results_sentinel_witness:
  "fst (query_db_aggregate basic_fromisoformat memory_driver 0
          (Some ''2026-01-01T00:00:00'') (Some ''2026-01-02T00:00:00'') sample_world) =
     Inr (PStr ''No results found for the aggregation.'') \<and>
   fst (query_db_aggregate basic_fromisoformat memory_driver 0 None None sample_world) =
     Inr (PList (database sample_world))"
proof -
  let ?empty = "query_db_aggregate basic_fromisoformat memory_driver 0
          (Some ''2026-01-01T00:00:00'') (Some ''2026-01-02T00:00:00'') sample_world"
  let ?full = "query_db_aggregate basic_fromisoformat memory_driver 0 None None sample_world"
  let ?day = "PDict [(''$match'', PDict [(''date'',
            PDict [(''$gte'', PDatetime (2026, 1, 1, 0, 0, 0)),
                   (''$lt'', PDatetime (2026, 1, 2, 0, 0, 0))])])]"
  have e1: "?empty = (fst ?empty, snd ?empty)" and f1: "?full = (fst ?full, snd ?full)"
    by simp_all
  have e2: "aggregated (snd ?empty) = aggregated sample_world @
      [(''fundaura'', ''transactions'', [?day, PDict [(''$limit'', PInt 5)]])]"
    by (simp add: tool_defs truthy_def instance_defs)
  have e3: "memory_driver ''fundaura'' ''transactions'' [?day, PDict [(''$limit'', PInt 5)]]
      (database sample_world) = (Inr [], database sample_world)"
    by (simp add: instance_defs)
  have f2: "aggregated (snd ?full) = aggregated sample_world @
      [(''fundaura'', ''transactions'', [PDict [(''$limit'', PInt 5)]])]"
    by (simp add: tool_defs truthy_def instance_defs)
  have f3: "memory_driver ''fundaura'' ''transactions'' [PDict [(''$limit'', PInt 5)]]
      (database sample_world) = (Inr (database sample_world), database sample_world)"
    by (simp add: instance_defs)
  from no_results_sentinel [OF e1 e2 e3] no_results_sentinel [OF f1 f2 f3]
  show ?thesis by (simp add: sample_world_def)
qed

subsection \<open>The caller's list\<close>

text \<open>
  C10. The call leaves the caller's pipeline list as it was: the stages are collected in a
  list object of the call's own, and every list object that existed before the call has
  the content it had.
\<close>

theorem pipeline_not_mutated:
  assumes "pipeline < length (heap w)"
  shows "heap (snd (query_db_aggregate fromisoformat aggregate pipeline start end' w)) ! pipeline
           = heap w ! pipeline
         \<and> take (length (heap w))
             (heap (snd (query_db_aggregate fromisoformat aggregate pipeline start end' w)))
           = heap w"
  using assms
  by (auto simp add: tool_defs nth_append split: prod.splits sum.splits if_splits option.splits)

theorem pipeline_not_mutated_witness:
  "0 < length (heap sample_world) \<and>
   heap (snd (query_db_aggregate basic_fromisoformat memory_driver 0
      (Some ''2025-04-19T00:00:00'') (Some ''2025-04-20T00:00:00'') sample_world)) ! 0
     = [PDict [(''$limit'', PInt 5)]]"
proof -
  have h: "0 < length (heap sample_world)"
    by (simp add: sample_world_def)
  from pipeline_not_mutated [OF h, of basic_fromisoformat memory_driver
      "Some ''2025-04-19T00:00:00''" "Some ''2025-04-20T00:00:00''"] h
  show ?thesis by (simp add: sample_world_def)
qed

section \<open>Properties of \<^verbatim>\<open>app_lifespan\<close>\<close>



section \<open>Properties of the client\<close>

text \<open>
  The executor is created with a ceiling of five iterations. The loop that counts them is
  the framework's \<^verbatim>\<open>AgentExecutor\<close>, which is not part of these programs.
\<close>

lemma agent_executor_max_iterations: "max_iterations agent_executor = 5"
  by (simp add: agent_executor_def)

text \<open>
  C7, as the code has it. The claim reads: every exception raised by the agent invocation
  is caught and returned as \<^verbatim>\<open>{"error": ...}\<close>. The handler is
  \<^verbatim>\<open>except Exception\<close>: an exception whose class does not derive from
  \<^verbatim>\<open>Exception\<close>, such as the \<^verbatim>\<open>asyncio.CancelledError\<close> raised at the
  \<^verbatim>\<open>await\<close> when the run is cancelled, leaves \<^verbatim>\<open>main\<close> and ends the script.
\<close>

theorem cancellation_not_caught:
  "main quiet_startup (failing_ainvoke (Raised False [])) fresh_client =
     (Inl (Raised False []), fresh_client\<lparr>printed := [Stdout [PStr query_line]]\<rparr>)
   \<and> fst (client_script quiet_startup (failing_ainvoke (Raised False [])) fresh_client) =
     Some (Raised False [])"
  by (simp add: main_def client_script_def quiet_startup_def failing_ainvoke_def
      fresh_client_def)

text \<open>
  C7, amended. Every exception raised by the agent invocation whose class derives from
  \<^verbatim>\<open>Exception\<close> is caught in \<^verbatim>\<open>main\<close>: its message and traceback are
  printed, \<^verbatim>\<open>main\<close> returns \<^verbatim>\<open>{"error": str(e)}\<close> instead of raising, and the
  script prints that object as its final result.
\<close>

theorem agent_exception_returned_as_error:
  assumes "startup (env c) = (None, s1)"
    and "ainvoke agent_executor (PDict [(''input'', PStr query)]) s1 = (Inl e, s2)"
    and "is_Exception e"
  shows "fst (main startup ainvoke c) = Inr (PDict [(''error'', PStr (exc_str e))])
       \<and> client_script startup ainvoke c =
           (None,
            c\<lparr>env := s2,
              printed := printed c @
                [Stdout [PStr query_line],
                 Stdout [PStr (''Error executing agent: '' @ exc_str e)],
                 Print_exc e,
                 Stdout [PStr ''Final result:'', PDict [(''error'', PStr (exc_str e))]]]\<rparr>)"
  using assms
  by (simp add: main_def client_script_def)

theorem agent_exception_returned_as_error_witness:
  "client_script quiet_startup (failing_ainvoke (Raised True ''Could not parse LLM output''))
      fresh_client =
     (None,
      \<lparr>env = (),
       printed =
         [Stdout [PStr query_line],
          Stdout [PStr ''Error executing agent: Could not parse LLM output''],
          Print_exc (Raised True ''Could not parse LLM output''),
          Stdout [PStr ''Final result:'',
                  PDict [(''error'', PStr ''Could not parse LLM output'')]]]\<rparr>)"
proof -
  let ?e = "Raised True ''Could not parse LLM output''"
  have h1: "quiet_startup (env fresh_client) = (None, ())"
    by (simp add: quiet_startup_def)
  have h2: "failing_ainvoke ?e agent_executor (PDict [(''input'', PStr query)]) () = (Inl ?e, ())"
    by (simp add: failing_ainvoke_def)
  have h3: "is_Exception ?e"
    by simp
  from agent_exception_returned_as_error
         [where startup = quiet_startup and c = fresh_client
            and ainvoke = "failing_ainvoke ?e", OF h1 h2 h3]
  show ?thesis by (simp add: fresh_client_def)
qed

end
